theory Spec2Isabelle
  imports Main
begin

section \<open>The bootstrapping script \<^verbatim>\<open>setup.py\<close>\<close>

text \<open>
  A shallow embedding of \<^verbatim>\<open>src/setup.py\<close>, the one-shot CI/CD bootstrapper for Unity
  projects. The script is a sequence of external commands, file operations and prints;
  the embedding makes each of them explicit:
  \<^item> Python strings are \<^typ>\<open>string\<close>; the character classes of \<^verbatim>\<open>str.strip\<close>,
    \<^verbatim>\<open>str.lower\<close> and of the regular expressions are the ASCII ones (a character outside
    ASCII is neither whitespace, nor a digit, nor a word character, and is its own lower case);
  \<^item> the two \<^verbatim>\<open>re\<close> calls are run by a small backtracking matcher with the priorities of
    Python's engine (leftmost start, lazy and greedy repetition);
  \<^item> everything outside the process (installed tools, the file system, what a command
    answers) is a value of an arbitrary type \<open>'w\<close>, read and changed only through the
    functions of an \<open>os\<close> record;
  \<^item> the process itself is a state: the \<^verbatim>\<open>PATH\<close> variable, the outside world, and the trace of
    what the process has printed, executed and written so far;
  \<^item> \<^verbatim>\<open>sys.exit\<close> and the \<^verbatim>\<open>CalledProcessError\<close> of \<^verbatim>\<open>subprocess.run(check=True)\<close> are
    outcomes that end the run.
  The run is on a POSIX system: \<^verbatim>\<open>os.pathsep\<close> is a colon and paths are joined with a slash.
  Failures of the operating system itself (a directory that cannot be created, a file
  that cannot be decoded) are outside the model.
\<close>

subsection \<open>Strings\<close>

definition isspace :: "char \<Rightarrow> bool" where
  \<comment> \<open>\<^verbatim>\<open>str.isspace\<close> on ASCII; also the class \<^verbatim>\<open>\s\<close>.\<close>
  "isspace c = (c \<in> set [CHR 0x09, CHR 0x0A, CHR 0x0B, CHR 0x0C, CHR 0x0D,
                          CHR 0x1C, CHR 0x1D, CHR 0x1E, CHR 0x1F, CHR 0x20])"

definition isdigit :: "char \<Rightarrow> bool" where
  \<comment> \<open>the class \<^verbatim>\<open>\d\<close> on ASCII.\<close>
  "isdigit c = (c \<in> set ''0123456789'')"

definition isword :: "char \<Rightarrow> bool" where
  \<comment> \<open>the class \<^verbatim>\<open>\w\<close> on ASCII.\<close>
  "isword c = (c \<in> set ''abcdefghijklmnopqrstuvwxyzABCDEFGHIJKLMNOPQRSTUVWXYZ0123456789_'')"

definition isword_or_dot :: "char \<Rightarrow> bool" where
  \<comment> \<open>the class \<^verbatim>\<open>[\w.]\<close>.\<close>
  "isword_or_dot c = (isword c \<or> c = CHR ''.'')"

definition lower_char :: "char \<Rightarrow> char" where
  "lower_char c =
     (case map_of (zip ''ABCDEFGHIJKLMNOPQRSTUVWXYZ'' ''abcdefghijklmnopqrstuvwxyz'') c of
        Some l \<Rightarrow> l
      | None \<Rightarrow> c)"

definition py_lower :: "string \<Rightarrow> string" where
  "py_lower s = map lower_char s"

definition py_replace :: "char \<Rightarrow> char \<Rightarrow> string \<Rightarrow> string" where
  \<comment> \<open>\<^verbatim>\<open>s.replace(a, b)\<close> for one-character \<^verbatim>\<open>a\<close> and \<^verbatim>\<open>b\<close>.\<close>
  "py_replace a b s = map (\<lambda>c. if c = a then b else c) s"

definition py_strip :: "string \<Rightarrow> string" where
  "py_strip s = rev (dropWhile isspace (rev (dropWhile isspace s)))"

fun py_split :: "char \<Rightarrow> string \<Rightarrow> string list" where
  "py_split sep [] = [[]]"
| "py_split sep (c # cs) =
     (if c = sep then [] # py_split sep cs
      else (case py_split sep cs of [] \<Rightarrow> [[c]] | p # ps \<Rightarrow> (c # p) # ps))"

fun py_join :: "char \<Rightarrow> string list \<Rightarrow> string" where
  "py_join sep [] = []"
| "py_join sep [x] = x"
| "py_join sep (x # y # ys) = x @ sep # py_join sep (y # ys)"

definition digit_value :: "char \<Rightarrow> nat" where
  "digit_value c = of_char c - 48"

definition py_int :: "string \<Rightarrow> nat" where
  \<comment> \<open>\<^verbatim>\<open>int(s)\<close> for a nonempty string of ASCII digits.\<close>
  "py_int s = foldl (\<lambda>a c. 10 * a + digit_value c) 0 s"

definition str_or_none :: "string option \<Rightarrow> string" where
  \<comment> \<open>how an f-string renders an optional string.\<close>
  "str_or_none x = (case x of None \<Rightarrow> ''None'' | Some v \<Rightarrow> v)"

definition truthy :: "string option \<Rightarrow> bool" where
  \<comment> \<open>Python's truth value of an optional string: \<^verbatim>\<open>None\<close> and \<^verbatim>\<open>""\<close> are false.\<close>
  "truthy x = (case x of None \<Rightarrow> False | Some v \<Rightarrow> v \<noteq> [])"

definition or_else :: "string option \<Rightarrow> string \<Rightarrow> string" where
  \<comment> \<open>\<^verbatim>\<open>x or d\<close>.\<close>
  "or_else x d = (case x of None \<Rightarrow> d | Some v \<Rightarrow> if v = [] then d else v)"

subsection \<open>Regular expressions\<close>

text \<open>
  The script's patterns are sequences of four kinds of atoms: a literal text, the lazy
  \<^verbatim>\<open>.*?\<close> (under \<^verbatim>\<open>re.DOTALL\<close>, so any character), a greedy \<^verbatim>\<open>c*\<close> over a character
  class, and the capturing group \<^verbatim>\<open>(c+)\<close>, greedy as well. Each pattern has exactly one
  group; a match is reported as the text of that group.
\<close>

datatype atom =
    Chars string
  | LazyAny
  | Star "char \<Rightarrow> bool"
  | Group1Plus "char \<Rightarrow> bool"

fun first_some :: "(nat \<Rightarrow> 'a option) \<Rightarrow> nat list \<Rightarrow> 'a option" where
  "first_some f [] = None"
| "first_some f (n # ns) = (case f n of Some r \<Rightarrow> Some r | None \<Rightarrow> first_some f ns)"

text \<open>
  \<open>match_at p s\<close> matches the pattern at the start of \<open>s\<close>. A repetition tries its
  candidate lengths in the engine's order (shortest first when lazy, longest first when
  greedy) and keeps the first length with which the rest of the pattern matches.
\<close>

fun match_at :: "atom list \<Rightarrow> string \<Rightarrow> string option" where
  "match_at [] s = Some []"
| "match_at (Chars l # as) s =
     (if take (length l) s = l then match_at as (drop (length l) s) else None)"
| "match_at (LazyAny # as) s =
     first_some (\<lambda>n. match_at as (drop n s)) [0..<Suc (length s)]"
| "match_at (Star c # as) s =
     first_some (\<lambda>n. match_at as (drop n s)) (rev [0..<Suc (length (takeWhile c s))])"
| "match_at (Group1Plus c # as) s =
     map_option (\<lambda>n. take n s)
       (find (\<lambda>n. match_at as (drop n s) \<noteq> None) (rev [1..<Suc (length (takeWhile c s))]))"

definition re_match :: "atom list \<Rightarrow> string \<Rightarrow> string option" where
  "re_match p s = match_at p s"

definition re_search :: "atom list \<Rightarrow> string \<Rightarrow> string option" where
  "re_search p s = first_some (\<lambda>i. match_at p (drop i s)) [0..<Suc (length s)]"

subsection \<open>The process and the world around it\<close>

datatype event =
    Print string
  | Exec string
  | Mkdir string
  | WriteText string string

datatype exc = CalledProcessError int string

datatype 'a outcome =
    Returned 'a
  | SysExit nat
  | Raised exc

record 'w os =
  os_which :: "string option \<Rightarrow> 'w \<Rightarrow> string \<Rightarrow> string option"
  os_shell :: "string option \<Rightarrow> 'w \<Rightarrow> string \<Rightarrow> int \<times> string \<times> 'w"
  os_exists :: "'w \<Rightarrow> string \<Rightarrow> bool"
  os_read_text :: "'w \<Rightarrow> string \<Rightarrow> string"
  os_mkdir :: "'w \<Rightarrow> string \<Rightarrow> 'w"
  os_write_text :: "'w \<Rightarrow> string \<Rightarrow> string \<Rightarrow> 'w"
  os_system :: string
  os_home :: "string option"

text \<open>
  \<open>os_which\<close> is \<^verbatim>\<open>shutil.which\<close> and \<open>os_shell\<close> is \<^verbatim>\<open>subprocess.run(cmd, shell=True)\<close>
  (exit code, standard output, the world afterwards); both see the current \<^verbatim>\<open>PATH\<close>.
  \<open>os_system\<close> is \<^verbatim>\<open>platform.system()\<close>. \<open>os_home\<close> is the home directory that
  \<^verbatim>\<open>os.path.expanduser\<close> finds (\<^verbatim>\<open>$HOME\<close>, else the password database), \<open>None\<close> when
  there is none.
\<close>

record 'w state =
  env_PATH :: "string option"
  world :: 'w
  trace :: "event list"

type_synonym ('w, 'a) prog = "'w state \<Rightarrow> 'a outcome \<times> 'w state"

definition return :: "'a \<Rightarrow> ('w, 'a) prog" where
  "return a s = (Returned a, s)"

definition and_then :: "('w, 'a) prog \<Rightarrow> ('a \<Rightarrow> ('w, 'b) prog) \<Rightarrow> ('w, 'b) prog" where
  "and_then m f s =
     (case m s of
        (Returned a, s') \<Rightarrow> f a s'
      | (SysExit n, s') \<Rightarrow> (SysExit n, s')
      | (Raised e, s') \<Rightarrow> (Raised e, s'))"

definition print_line :: "string \<Rightarrow> ('w, unit) prog" where
  "print_line text s = (Returned (), s\<lparr>trace := trace s @ [Print text]\<rparr>)"

definition sys_exit :: "nat \<Rightarrow> ('w, 'a) prog" where
  "sys_exit n s = (SysExit n, s)"

subsection \<open>The script\<close>

definition CI_SERVICE_ACCOUNT :: string where
  "CI_SERVICE_ACCOUNT = ''ci-distribution@hcgamesfirebase.iam.gserviceaccount.com''"

definition run :: "'w os \<Rightarrow> string \<Rightarrow> bool \<Rightarrow> bool \<Rightarrow> ('w, string option) prog" where
  "run os cmd capture check s =
     (case os_shell os (env_PATH s) (world s) cmd of
        (returncode, stdout, w') \<Rightarrow>
          (let s' = s\<lparr>world := w', trace := trace s @ [Exec cmd]\<rparr> in
           if capture then
             (if check \<and> returncode \<noteq> 0 then (Returned None, s')
              else (Returned (Some (py_strip stdout)), s'))
           else
             (if check \<and> returncode \<noteq> 0 then (Raised (CalledProcessError returncode cmd), s')
              else (Returned None, s'))))"

definition priority :: "string list" where
  "priority = [''/opt/homebrew/bin'', ''/opt/homebrew/sbin'']"

definition expanduser :: "string option \<Rightarrow> string \<Rightarrow> string" where
  \<comment> \<open>\<^verbatim>\<open>os.path.expanduser\<close> on a path that starts with \<^verbatim>\<open>~/\<close>: the tilde becomes the home
      directory without its trailing slashes; the path is unchanged when there is no home.\<close>
  "expanduser home path =
     (case home of
        None \<Rightarrow> path
      | Some h \<Rightarrow> rev (dropWhile (\<lambda>c. c = CHR ''/'') (rev h)) @ drop 1 path)"

definition extra :: "string option \<Rightarrow> string list" where
  "extra home = [''/usr/local/bin'', expanduser home ''~/.npm-global/bin'']"

definition pathsep :: char where
  "pathsep = CHR '':''"

fun append_missing :: "string list \<Rightarrow> string list \<Rightarrow> string list" where
  \<comment> \<open>the loop \<^verbatim>\<open>for p in extra: if p not in parts: parts.append(p)\<close>.\<close>
  "append_missing [] parts = parts"
| "append_missing (p # ps) parts =
     append_missing ps (if p \<in> set parts then parts else parts @ [p])"

definition rebuild_path :: "string option \<Rightarrow> string option \<Rightarrow> string" where
  \<comment> \<open>the value \<^verbatim>\<open>_ensure_path\<close> stores in \<^verbatim>\<open>PATH\<close>, from the home directory and the old value.\<close>
  "rebuild_path home path =
     (let current = (case path of None \<Rightarrow> [] | Some v \<Rightarrow> v);
          parts = py_split pathsep current;
          parts = filter (\<lambda>p. p \<notin> set priority) parts;
          parts = append_missing (extra home) parts
      in py_join pathsep (priority @ parts))"

definition ensure_path :: "'w os \<Rightarrow> ('w, unit) prog" where
  "ensure_path os s = (Returned (), s\<lparr>env_PATH := Some (rebuild_path (os_home os) (env_PATH s))\<rparr>)"

definition command_exists :: "'w os \<Rightarrow> string \<Rightarrow> 'w state \<Rightarrow> bool" where
  "command_exists os name s = (os_which os (env_PATH s) (world s) name \<noteq> None)"

definition version_pattern :: "atom list" where
  \<comment> \<open>\<^verbatim>\<open>v(\d+)\<close>\<close>
  "version_pattern = [Chars ''v'', Group1Plus isdigit]"

definition check_node_version :: "'w os \<Rightarrow> ('w, unit) prog" where
  "check_node_version os s =
     (if \<not> truthy (os_which os (env_PATH s) (world s) ''node'') then return () s
      else
        and_then (run os ''node --version'' True False) (\<lambda>version_str.
          if \<not> truthy version_str then return ()
          else
            (case re_match version_pattern (str_or_none version_str) of
               None \<Rightarrow> return ()
             | Some g \<Rightarrow>
                 if py_int g \<ge> 20 then return ()
                 else
                   and_then (print_line (''Node.js '' @ str_or_none version_str
                                          @ '' is too old for Firebase CLI (need >= v20).'')) (\<lambda>_.
                   (\<lambda>s1.
                     if command_exists os ''brew'' s1 then
                       and_then (print_line ''Upgrading Node.js via Homebrew...'') (\<lambda>_.
                       and_then (run os ''brew upgrade node || brew install node'' False False) (\<lambda>_.
                       ensure_path os)) s1
                     else
                       and_then (print_line ''Error: Please upgrade Node.js to >= v20.'') (\<lambda>_.
                       sys_exit 1) s1)))) s)"

definition check_prerequisites :: "'w os \<Rightarrow> ('w, unit) prog" where
  "check_prerequisites os =
     and_then (check_node_version os) (\<lambda>_.
     and_then (\<lambda>s.
       if \<not> command_exists os ''firebase'' s then
         (if command_exists os ''npm'' s then
            and_then (print_line ''Installing Firebase CLI via npm...'') (\<lambda>_.
            and_then (run os ''npm install -g firebase-tools'' False True) (\<lambda>_.
            return ())) s
          else if os_system os = ''Darwin'' \<and> command_exists os ''brew'' s then
            and_then (print_line ''Installing Firebase CLI via Homebrew...'') (\<lambda>_.
            and_then (run os ''brew install firebase-cli'' False True) (\<lambda>_.
            return ())) s
          else
            and_then (print_line ''Error: Install Firebase CLI manually:'') (\<lambda>_.
            and_then (print_line ''  npm install -g firebase-tools'') (\<lambda>_.
            and_then (print_line ''  https://firebase.google.com/docs/cli'') (\<lambda>_.
            sys_exit 1))) s)
       else return () s) (\<lambda>_.
     and_then (run os ''firebase projects:list'' True False) (\<lambda>result.
       (case result of
          None \<Rightarrow>
            and_then (print_line ''You need to log in to Firebase.'') (\<lambda>_.
            and_then (run os ''firebase login'' False False) (\<lambda>_.
            return ()))
        | Some _ \<Rightarrow> return ()))))"

definition ios_pattern :: "atom list" where
  \<comment> \<open>\<^verbatim>\<open>applicationIdentifier:.*?iPhone:\s*([\w.]+)\<close> with \<^verbatim>\<open>re.DOTALL\<close>\<close>
  "ios_pattern =
     [Chars ''applicationIdentifier:'', LazyAny, Chars ''iPhone:'', Star isspace,
      Group1Plus isword_or_dot]"

definition android_pattern :: "atom list" where
  \<comment> \<open>\<^verbatim>\<open>applicationIdentifier:.*?Android:\s*([\w.]+)\<close> with \<^verbatim>\<open>re.DOTALL\<close>\<close>
  "android_pattern =
     [Chars ''applicationIdentifier:'', LazyAny, Chars ''Android:'', Star isspace,
      Group1Plus isword_or_dot]"

definition parse_bundle_ids :: "string \<Rightarrow> string option \<times> string option" where
  \<comment> \<open>the parsing step of \<^verbatim>\<open>read_bundle_ids\<close>: from the text of the settings document to
      the two identifiers.\<close>
  "parse_bundle_ids content =
     (let ios_id = (case re_search ios_pattern content of
                      None \<Rightarrow> None
                    | Some g \<Rightarrow> Some (py_strip g));
          android_id = (case re_search android_pattern content of
                          None \<Rightarrow> None
                        | Some g \<Rightarrow> Some (py_strip g))
      in (ios_id, android_id))"

definition settings_path :: string where
  "settings_path = ''ProjectSettings/ProjectSettings.asset''"

definition read_bundle_ids :: "'w os \<Rightarrow> ('w, string option \<times> string option) prog" where
  "read_bundle_ids os s =
     (if \<not> os_exists os (world s) settings_path then
        and_then (print_line (''Error: '' @ settings_path
                               @ '' not found. Run this from a Unity project root.'')) (\<lambda>_.
        sys_exit 1) s
      else
        (case parse_bundle_ids (os_read_text os (world s) settings_path) of
           (ios_id, android_id) \<Rightarrow>
             and_then
               (if \<not> truthy ios_id \<or> \<not> truthy android_id then
                  and_then (print_line (''Warning: Could not parse all bundle IDs from ''
                                         @ settings_path)) (\<lambda>_.
                  and_then (print_line (''  iOS: '' @ or_else ios_id ''NOT FOUND'')) (\<lambda>_.
                  print_line (''  Android: '' @ or_else android_id ''NOT FOUND'')))
                else return ())
               (\<lambda>_. return (ios_id, android_id)) s))"

definition mkdir_parents :: "'w os \<Rightarrow> string \<Rightarrow> ('w, unit) prog" where
  \<comment> \<open>\<^verbatim>\<open>Path.mkdir(parents=True, exist_ok=True)\<close>\<close>
  "mkdir_parents os path s =
     (Returned (), s\<lparr>world := os_mkdir os (world s) path, trace := trace s @ [Mkdir path]\<rparr>)"

definition write_text :: "'w os \<Rightarrow> string \<Rightarrow> string \<Rightarrow> ('w, unit) prog" where
  "write_text os path content s =
     (Returned (), s\<lparr>world := os_write_text os (world s) path content,
                       trace := trace s @ [WriteText path content]\<rparr>)"

definition settings_dir :: string where
  "settings_dir = ''Assets/Settings''"

definition setup_firebase ::
  "'w os \<Rightarrow> string \<Rightarrow> string \<Rightarrow> string option \<Rightarrow> string option \<Rightarrow> ('w, unit) prog" where
  \<open>setup_firebase os game_name project_id ios_bundle_id android_bundle_id =
     and_then (print_line (''\<newline>Creating Firebase project: '' @ project_id @ ''...'')) (\<lambda>_.
     and_then (run os (''firebase projects:create "'' @ project_id
                        @ ''" --display-name "'' @ game_name @ ''"'') False False) (\<lambda>_.
     and_then
       (if truthy ios_bundle_id then
          and_then (print_line (''Registering iOS app ('' @ str_or_none ios_bundle_id
                                 @ '')...'')) (\<lambda>_.
          and_then (run os (''firebase apps:create ios --bundle-id "''
                             @ str_or_none ios_bundle_id
                             @ ''" --project "'' @ project_id @ ''"'') False False) (\<lambda>_.
          return ()))
        else return ()) (\<lambda>_.
     and_then
       (if truthy android_bundle_id then
          and_then (print_line (''Registering Android app ('' @ str_or_none android_bundle_id
                                 @ '')...'')) (\<lambda>_.
          and_then (run os (''firebase apps:create android --package-name "''
                             @ str_or_none android_bundle_id
                             @ ''" --project "'' @ project_id @ ''"'') False False) (\<lambda>_.
          return ()))
        else return ()) (\<lambda>_.
     and_then (mkdir_parents os settings_dir) (\<lambda>_.
     and_then (print_line ''Downloading GoogleService-Info.plist...'') (\<lambda>_.
     and_then (run os (''firebase apps:sdkconfig ios --project "'' @ project_id
                        @ ''" --out "'' @ settings_dir @ ''/GoogleService-Info.plist"'')
                 False False) (\<lambda>_.
     and_then (print_line ''Downloading google-services.json...'') (\<lambda>_.
     and_then (run os (''firebase apps:sdkconfig android --project "'' @ project_id
                        @ ''" --out "'' @ settings_dir @ ''/google-services.json"'')
                 False False) (\<lambda>_.
     and_then (print_line ''Adding CI service account to Firebase project...'') (\<lambda>_.
     (\<lambda>s.
        if command_exists os ''gcloud'' s then
          and_then (run os (''gcloud projects add-iam-policy-binding '' @ project_id
                             @ '' --member="serviceAccount:'' @ CI_SERVICE_ACCOUNT
                             @ ''" --role="roles/firebaseappdistro.admin" --quiet'')
                      False False) (\<lambda>_.
          return ()) s
        else
          print_line (''Warning: gcloud not found. Add '' @ CI_SERVICE_ACCOUNT
                       @ '' manually in Firebase Console with App Distribution Admin role.'')
            s)))))))))))\<close>

definition path_parent :: "string \<Rightarrow> string" where
  \<comment> \<open>\<^verbatim>\<open>Path(p).parent\<close> of a relative path without a trailing slash.\<close>
  "path_parent p =
     (let comps = py_split (CHR ''/'') p
      in if length comps \<le> 1 then ''.'' else py_join (CHR ''/'') (butlast comps))"

definition write_file :: "'w os \<Rightarrow> string \<Rightarrow> string \<Rightarrow> ('w, unit) prog" where
  "write_file os path content =
     and_then (mkdir_parents os (path_parent path)) (\<lambda>_.
     and_then (write_text os path content) (\<lambda>_.
     print_line (''  Created '' @ path)))"

definition build_yml :: "string \<Rightarrow> string" where
  \<open>build_yml game_name =
     ''name: '' @ game_name @ '' Build\<newline>'' @
     ''\<newline>'' @
     ''on:\<newline>'' @
     ''  workflow_dispatch:\<newline>'' @
     ''    inputs:\<newline>'' @
     ''      buildTarget:\<newline>'' @
     ''        description: "Platform to build"\<newline>'' @
     ''        required: true\<newline>'' @
     ''        default: "iOS"\<newline>'' @
     ''        type: choice\<newline>'' @
     ''        options:\<newline>'' @
     ''          - Android\<newline>'' @
     ''          - iOS\<newline>'' @
     ''          - Both\<newline>'' @
     ''      distribution:\<newline>'' @
     ''        description: "Distribution target"\<newline>'' @
     ''        required: true\<newline>'' @
     ''        default: "None"\<newline>'' @
     ''        type: choice\<newline>'' @
     ''        options:\<newline>'' @
     ''          - None\<newline>'' @
     ''          - TestFlight\<newline>'' @
     ''          - Firebase\<newline>'' @
     ''      scriptDefines:\<newline>'' @
     ''        description: "Extra script defines (semicolon-separated, e.g. DEV_MODE;EXTRA_LOGGING)"\<newline>'' @
     ''        required: false\<newline>'' @
     ''        type: string\<newline>'' @
     ''        default: ""\<newline>'' @
     ''\<newline>'' @
     ''concurrency:\<newline>'' @
     ''  group: ${{ github.workflow }}-${{ github.ref }}\<newline>'' @
     ''  cancel-in-progress: true\<newline>'' @
     ''\<newline>'' @
     ''jobs:\<newline>'' @
     ''  build-ios:\<newline>'' @
     ''    if: >-\<newline>'' @
     ''      inputs.buildTarget == 'iOS' ||\<newline>'' @
     ''      inputs.buildTarget == 'Both'' @ [CHR 0x27] @ ''\<newline>'' @
     ''    uses: Homecooked-Games-Git/devops-toolkit/.github/workflows/unity-build.yml@main\<newline>'' @
     ''    with:\<newline>'' @
     ''      game_name: "'' @ game_name @ ''"\<newline>'' @
     ''      build_target: "iOS"\<newline>'' @
     ''      distribution: ${{ inputs.distribution }}\<newline>'' @
     ''      script_defines: ${{ inputs.scriptDefines }}\<newline>'' @
     ''    secrets: inherit\<newline>'' @
     ''\<newline>'' @
     ''  build-android:\<newline>'' @
     ''    if: >-\<newline>'' @
     ''      inputs.buildTarget == 'Android' ||\<newline>'' @
     ''      inputs.buildTarget == 'Both'' @ [CHR 0x27] @ ''\<newline>'' @
     ''    uses: Homecooked-Games-Git/devops-toolkit/.github/workflows/unity-build.yml@main\<newline>'' @
     ''    with:\<newline>'' @
     ''      game_name: "'' @ game_name @ ''"\<newline>'' @
     ''      build_target: "Android"\<newline>'' @
     ''      distribution: ${{ inputs.distribution }}\<newline>'' @
     ''      script_defines: ${{ inputs.scriptDefines }}\<newline>'' @
     ''    secrets: inherit\<newline>''\<close>

definition fastfile :: string where
  \<open>fastfile =
     ''import_from_git(\<newline>'' @
     ''  url: "https://github.com/Homecooked-Games-Git/devops-toolkit.git",\<newline>'' @
     ''  branch: ENV["FL_DEVOPS_TOOLKIT_REF"] || "main",\<newline>'' @
     ''  path: "fastlane/Fastfile"\<newline>'' @
     '')\<newline>''\<close>

definition matchfile :: string where
  \<open>matchfile =
     ''git_url("https://github.com/oguztecimer/ios-certificates.git")\<newline>'' @
     ''storage_mode("git")\<newline>'' @
     ''type("appstore")\<newline>''\<close>

definition gemfile :: string where
  \<open>gemfile =
     ''source "https://rubygems.org"\<newline>'' @
     ''\<newline>'' @
     ''gem "fastlane"\<newline>'' @
     ''gem "cocoapods"\<newline>'' @
     ''gem "fastlane-plugin-firebase_app_distribution"\<newline>''\<close>

definition generate_boilerplate :: "'w os \<Rightarrow> string \<Rightarrow> ('w, unit) prog" where
  "generate_boilerplate os game_name =
     and_then (write_file os ''.github/workflows/build.yml'' (build_yml game_name)) (\<lambda>_.
     and_then (write_file os ''fastlane/Fastfile'' fastfile) (\<lambda>_.
     and_then (write_file os ''fastlane/Matchfile'' matchfile) (\<lambda>_.
     write_file os ''Gemfile'' gemfile)))"

definition generate_gemfile_lock :: "'w os \<Rightarrow> ('w, unit) prog" where
  "generate_gemfile_lock os s =
     (if command_exists os ''bundle'' s then
        and_then (print_line ''Generating Gemfile.lock...'') (\<lambda>_.
        and_then (run os ''bundle lock'' False False) (\<lambda>_.
        return ())) s
      else
        print_line
          ''Warning: bundler not found. Run 'bundle lock' manually to generate Gemfile.lock.'' s)"

definition project_slug :: "string \<Rightarrow> string" where
  \<comment> \<open>\<^verbatim>\<open>"hcg-" + game_name.lower().replace(" ", "-")\<close>\<close>
  "project_slug game_name = ''hcg-'' @ py_replace (CHR '' '') (CHR ''-'') (py_lower game_name)"

definition summary :: string where
  \<open>summary =
     ''\<newline>'' @
     ''Done! Files created:\<newline>'' @
     ''  .github/workflows/build.yml\<newline>'' @
     ''  fastlane/Fastfile\<newline>'' @
     ''  fastlane/Matchfile\<newline>'' @
     ''  Gemfile\<newline>'' @
     ''  Assets/Settings/GoogleService-Info.plist  (if Firebase succeeded)\<newline>'' @
     ''  Assets/Settings/google-services.json      (if Firebase succeeded)\<newline>'' @
     ''\<newline>'' @
     ''Remaining manual steps:\<newline>'' @
     ''  1. Ensure these GitHub secrets are set (org-level or repo-level):\<newline>'' @
     ''     - UNITY_LICENSE\<newline>'' @
     ''     - MATCH_PASSWORD, MATCH_KEYCHAIN_PASSWORD, MATCH_GIT_BASIC_AUTHORIZATION\<newline>'' @
     ''     - APP_STORE_CONNECT_API_KEY_KEY_ID, APP_STORE_CONNECT_API_KEY_ISSUER_ID, APP_STORE_CONNECT_API_KEY_KEY\<newline>'' @
     ''     - ANDROID_KEYSTORE_NAME, ANDROID_KEYSTORE_BASE64, ANDROID_KEYSTORE_PASS, ANDROID_KEYALIAS_NAME, ANDROID_KEYALIAS_PASS\<newline>'' @
     ''     - FIREBASE_SERVICE_ACCOUNT_JSON\<newline>'' @
     ''  2. If Firebase config download failed, download manually from Firebase Console.\<newline>'' @
     ''  3. If service account wasn't added, add '' @ CI_SERVICE_ACCOUNT @ ''\<newline>'' @
     ''     with "Firebase App Distribution Admin" role in Google Cloud Console IAM.\<newline>''\<close>

definition main :: "'w os \<Rightarrow> string list \<Rightarrow> ('w, unit) prog" where
  "main os argv =
     (if length argv < 2 then
        and_then (print_line ''Usage: python setup.py <GameName>'') (\<lambda>_.
        and_then (print_line ''Run from the root of your Unity project.'') (\<lambda>_.
        sys_exit 1))
      else
        (let game_name = argv ! 1;
             project_id = project_slug game_name
         in
           and_then (print_line (''Setting up CI/CD for '' @ game_name @ ''...\<newline>'')) (\<lambda>_.
           and_then (check_prerequisites os) (\<lambda>_.
           and_then (read_bundle_ids os) (\<lambda>(ios_bundle_id, android_bundle_id).
           and_then (print_line (''iOS bundle ID: '' @ str_or_none ios_bundle_id)) (\<lambda>_.
           and_then (print_line (''Android bundle ID: '' @ str_or_none android_bundle_id)) (\<lambda>_.
           and_then (setup_firebase os game_name project_id ios_bundle_id android_bundle_id) (\<lambda>_.
           and_then (print_line ''\<newline>Generating CI/CD files...'') (\<lambda>_.
           and_then (generate_boilerplate os game_name) (\<lambda>_.
           and_then (generate_gemfile_lock os) (\<lambda>_.
           print_line summary)))))))))))"

definition program :: "'w os \<Rightarrow> string list \<Rightarrow> ('w, unit) prog" where
  \<comment> \<open>running the file: the module-level call of \<^verbatim>\<open>_ensure_path\<close>, then \<^verbatim>\<open>main\<close>.\<close>
  "program os argv = and_then (ensure_path os) (\<lambda>_. main os argv)"

definition exit_status :: "'a outcome \<Rightarrow> nat" where
  \<comment> \<open>the status the interpreter exits with; an uncaught exception gives 1.\<close>
  "exit_status r = (case r of Returned _ \<Rightarrow> 0 | SysExit n \<Rightarrow> n | Raised _ \<Rightarrow> 1)"

subsection \<open>Notions used to state the properties\<close>

definition home_text :: "string option \<Rightarrow> string" where
  \<comment> \<open>the characters of the home directory, none when there is no home.\<close>
  "home_text home = (case home of None \<Rightarrow> [] | Some h \<Rightarrow> h)"


definition starts_at :: "string \<Rightarrow> string \<Rightarrow> nat \<Rightarrow> bool" where
  "starts_at l d i = (take (length l) (drop i d) = l)"

definition occurrences :: "string \<Rightarrow> string \<Rightarrow> nat list" where
  "occurrences l d = filter (starts_at l d) [0..<Suc (length d)]"

definition ident_at :: "string \<Rightarrow> string \<Rightarrow> nat \<Rightarrow> string" where
  "ident_at key d j = takeWhile isword_or_dot (dropWhile isspace (drop (j + length key) d))"

definition key_at :: "string \<Rightarrow> string \<Rightarrow> nat \<Rightarrow> bool" where
  "key_at key d j = (starts_at key d j \<and> ident_at key d j \<noteq> [])"

definition first_key :: "string \<Rightarrow> string \<Rightarrow> nat \<Rightarrow> nat option" where
  "first_key key d from = find (key_at key d) [from..<Suc (length d)]"

definition example_document :: string where
  "example_document =
     ''applicationIdentifier:\<newline>  iPhone: com.x.mygame\<newline>  Android: com.x.mygame''"

text \<open>
  A fixed environment for concrete runs: the listed tools resolve, every command gets the
  answer (exit code, output) that \<open>answer\<close> gives it, the settings document has the given
  text (or does not exist), and nothing ever changes.
\<close>

definition static_os ::
  "string list \<Rightarrow> (string \<Rightarrow> int \<times> string) \<Rightarrow> string option \<Rightarrow> string option \<Rightarrow> unit os" where
  "static_os tools answer document home =
     \<lparr> os_which = (\<lambda>_ _ name. if name \<in> set tools then Some (''/usr/bin/'' @ name) else None),
       os_shell = (\<lambda>_ _ cmd. (fst (answer cmd), snd (answer cmd), ())),
       os_exists = (\<lambda>_ p. p = settings_path \<and> document \<noteq> None),
       os_read_text = (\<lambda>_ p. case document of None \<Rightarrow> [] | Some d \<Rightarrow> d),
       os_mkdir = (\<lambda>w _. w),
       os_write_text = (\<lambda>w _ _. w),
       os_system = ''Linux'',
       os_home = home \<rparr>"

definition start :: "string option \<Rightarrow> unit state" where
  "start path = \<lparr> env_PATH = path, world = (), trace = [] \<rparr>"

text \<open>
  What the process does, as events. \<open>step\<close> is the effect of one event on the state and
  \<open>after\<close> the effect of a list of them; \<open>performs os m s r es\<close> says that the program
  \<open>m\<close>, started in \<open>s\<close>, ends with the outcome \<open>r\<close> after exactly the events \<open>es\<close>, and
  \<open>appends P m\<close> that \<open>m\<close> only ever adds events that satisfy \<open>P\<close>. The remaining
  definitions name the events of the steps of \<^verbatim>\<open>setup_firebase\<close> and the events that
  \<^verbatim>\<open>check_prerequisites\<close> can add when the login fallback is not taken.
\<close>

definition prerequisite_event :: "event \<Rightarrow> bool" where
  "prerequisite_event e =
     (case e of
        Print t \<Rightarrow> t \<noteq> ''You need to log in to Firebase.''
      | Exec c \<Rightarrow> c \<in> set [''node --version'', ''brew upgrade node || brew install node'',
                            ''npm install -g firebase-tools'', ''brew install firebase-cli'',
                            ''firebase projects:list'']
      | Mkdir _ \<Rightarrow> False
      | WriteText _ _ \<Rightarrow> False)"

definition appends :: "(event \<Rightarrow> bool) \<Rightarrow> ('w, 'a) prog \<Rightarrow> bool" where
  "appends P m = (\<forall>s. \<exists>evs. trace (snd (m s)) = trace s @ evs \<and> list_all P evs)"

definition download_events :: "string \<Rightarrow> event list" where
  \<open>download_events project_id =
     [Mkdir ''Assets/Settings'',
      Print ''Downloading GoogleService-Info.plist...'',
      Exec (''firebase apps:sdkconfig ios --project "'' @ project_id
            @ ''" --out "Assets/Settings/GoogleService-Info.plist"''),
      Print ''Downloading google-services.json...'',
      Exec (''firebase apps:sdkconfig android --project "'' @ project_id
            @ ''" --out "Assets/Settings/google-services.json"'')]\<close>

definition ios_registration_events :: "string \<Rightarrow> string option \<Rightarrow> event list" where
  \<open>ios_registration_events project_id ios_bundle_id =
     (if truthy ios_bundle_id then
        [Print (''Registering iOS app ('' @ str_or_none ios_bundle_id @ '')...''),
         Exec (''firebase apps:create ios --bundle-id "'' @ str_or_none ios_bundle_id
               @ ''" --project "'' @ project_id @ ''"'')]
      else [])\<close>

definition android_registration_events :: "string \<Rightarrow> string option \<Rightarrow> event list" where
  \<open>android_registration_events project_id android_bundle_id =
     (if truthy android_bundle_id then
        [Print (''Registering Android app ('' @ str_or_none android_bundle_id @ '')...''),
         Exec (''firebase apps:create android --package-name "'' @ str_or_none android_bundle_id
               @ ''" --project "'' @ project_id @ ''"'')]
      else [])\<close>

definition project_creation_events :: "string \<Rightarrow> string \<Rightarrow> event list" where
  \<open>project_creation_events game_name project_id =
     [Print (''\<newline>Creating Firebase project: '' @ project_id @ ''...''),
      Exec (''firebase projects:create "'' @ project_id @ ''" --display-name "''
            @ game_name @ ''"'')]\<close>

definition service_account_events :: "string \<Rightarrow> bool \<Rightarrow> event list" where
  \<open>service_account_events project_id gcloud =
     Print ''Adding CI service account to Firebase project...'' #
     (if gcloud then
        [Exec (''gcloud projects add-iam-policy-binding '' @ project_id
               @ '' --member="serviceAccount:'' @ CI_SERVICE_ACCOUNT
               @ ''" --role="roles/firebaseappdistro.admin" --quiet'')]
      else
        [Print (''Warning: gcloud not found. Add '' @ CI_SERVICE_ACCOUNT
                @ '' manually in Firebase Console with App Distribution Admin role.'')])\<close>

fun step :: "'w os \<Rightarrow> event \<Rightarrow> 'w state \<Rightarrow> 'w state" where
  "step os (Print t) s = s\<lparr>trace := trace s @ [Print t]\<rparr>"
| "step os (Exec cmd) s =
     s\<lparr>world := snd (snd (os_shell os (env_PATH s) (world s) cmd)), trace := trace s @ [Exec cmd]\<rparr>"
| "step os (Mkdir path) s =
     s\<lparr>world := os_mkdir os (world s) path, trace := trace s @ [Mkdir path]\<rparr>"
| "step os (WriteText path content) s =
     s\<lparr>world := os_write_text os (world s) path content,
       trace := trace s @ [WriteText path content]\<rparr>"

fun after :: "'w os \<Rightarrow> event list \<Rightarrow> 'w state \<Rightarrow> 'w state" where
  "after os [] s = s"
| "after os (e # es) s = after os es (step os e s)"

definition performs ::
  "'w os \<Rightarrow> ('w, 'a) prog \<Rightarrow> 'w state \<Rightarrow> 'a outcome \<Rightarrow> event list \<Rightarrow> bool" where
  "performs os m s r es = (m s = (r, after os es s))"

definition setup_firebase_events ::
  "string \<Rightarrow> string \<Rightarrow> string option \<Rightarrow> string option \<Rightarrow> bool \<Rightarrow> event list" where
  "setup_firebase_events game_name project_id ios_bundle_id android_bundle_id gcloud =
     project_creation_events game_name project_id
     @ ios_registration_events project_id ios_bundle_id
     @ android_registration_events project_id android_bundle_id
     @ download_events project_id
     @ service_account_events project_id gcloud"

definition ios_only_document :: string where
  "ios_only_document = ''applicationIdentifier:\<newline>  iPhone: com.x.mygame\<newline>''"

text \<open>
  For the driver: the first line it prints, the diagnostic for a missing settings
  document, what \<^verbatim>\<open>check_node_version\<close> does when it gives up, and programs that return
  normally from every state.
\<close>

definition always_returns :: "('w, 'a) prog \<Rightarrow> bool" where
  "always_returns m = (\<forall>s. \<exists>a. fst (m s) = Returned a)"

definition too_old_events :: "string \<Rightarrow> event list" where
  "too_old_events version_str =
     [Exec ''node --version'',
      Print (''Node.js '' @ version_str @ '' is too old for Firebase CLI (need >= v20).''),
      Print ''Error: Please upgrade Node.js to >= v20.'']"

definition greeting :: "string list \<Rightarrow> event" where
  "greeting argv = Print (''Setting up CI/CD for '' @ argv ! 1 @ ''...\<newline>'')"

definition settings_missing :: event where
  "settings_missing =
     Print ''Error: ProjectSettings/ProjectSettings.asset not found. Run this from a Unity project root.''"

section \<open>Properties\<close>

subsection \<open>Splitting and joining the search path\<close>

lemma py_split_nonempty: "py_split sep s \<noteq> []"
  by (induction s) (auto split: list.splits)

lemma py_join_split: "py_join sep (py_split sep s) = s"
proof (induction s)
  case Nil show ?case by simp
next
  case (Cons c cs)
  obtain p ps where ps: "py_split sep cs = p # ps"
    using py_split_nonempty[of sep cs] by (cases "py_split sep cs") auto
  show ?case using Cons ps by (cases ps) auto
qed

lemma py_split_no_sep: "x \<in> set (py_split sep s) \<Longrightarrow> sep \<notin> set x"
  by (induction s arbitrary: x) (auto split: if_splits list.splits)

lemma py_split_append_sep:
  "sep \<notin> set x \<Longrightarrow> py_split sep (x @ sep # s) = x # py_split sep s"
  by (induction x) auto

lemma py_split_no_sep_id: "sep \<notin> set x \<Longrightarrow> py_split sep x = [x]"
  by (induction x) auto

lemma py_split_join:
  "xs \<noteq> [] \<Longrightarrow> (\<And>x. x \<in> set xs \<Longrightarrow> sep \<notin> set x) \<Longrightarrow> py_split sep (py_join sep xs) = xs"
proof (induction sep xs rule: py_join.induct)
  case (1 sep) then show ?case by simp
next
  case (2 sep x) then show ?case by (simp add: py_split_no_sep_id)
next
  case (3 sep x y ys)
  then show ?case by (simp add: py_split_append_sep)
qed

lemma npm_dir_suffix:
  "\<exists>pre. expanduser home ''~/.npm-global/bin'' = pre @ ''/.npm-global/bin''"
  by (cases home) (auto simp: expanduser_def)

lemma npm_dir_not_usr_local: "expanduser home ''~/.npm-global/bin'' \<noteq> ''/usr/local/bin''"
proof
  assume a: "expanduser home ''~/.npm-global/bin'' = ''/usr/local/bin''"
  obtain pre where "expanduser home ''~/.npm-global/bin'' = pre @ ''/.npm-global/bin''"
    using npm_dir_suffix by blast
  with a have "length (pre @ ''/.npm-global/bin'') = length ''/usr/local/bin''" by simp
  then show False by simp
qed

lemma npm_dir_not_priority: "expanduser home ''~/.npm-global/bin'' \<notin> set priority"
proof
  assume a: "expanduser home ''~/.npm-global/bin'' \<in> set priority"
  obtain pre where p: "expanduser home ''~/.npm-global/bin'' = pre @ ''/.npm-global/bin''"
    using npm_dir_suffix by blast
  from a p have "rev (pre @ ''/.npm-global/bin'') = rev ''/opt/homebrew/bin''
      \<or> rev (pre @ ''/.npm-global/bin'') = rev ''/opt/homebrew/sbin''"
    by (auto simp: priority_def)
  then have "take 5 (rev (pre @ ''/.npm-global/bin'')) = take 5 (rev ''/opt/homebrew/bin'')
      \<or> take 5 (rev (pre @ ''/.npm-global/bin'')) = take 5 (rev ''/opt/homebrew/sbin'')"
    by metis
  then show False by simp
qed

lemma extra_facts:
  "extra home = [''/usr/local/bin'', expanduser home ''~/.npm-global/bin'']"
  "''/usr/local/bin'' \<notin> set priority"
  by (simp_all add: extra_def priority_def)

lemma append_missing_extra:
  "set rest = set entries - set priority \<Longrightarrow>
   append_missing (extra home) rest = rest @ filter (\<lambda>e. e \<notin> set entries) (extra home)"
  using npm_dir_not_usr_local[of home] npm_dir_not_priority[of home] extra_facts(2)
  by (auto simp: extra_def)

lemma rebuild_path_eq:
  "rebuild_path home path =
     (let entries = py_split pathsep (case path of None \<Rightarrow> [] | Some v \<Rightarrow> v);
          rest = filter (\<lambda>p. p \<notin> set priority) entries;
          missing = filter (\<lambda>e. e \<notin> set entries) (extra home)
      in py_join pathsep (priority @ rest @ missing))"
  unfolding rebuild_path_def Let_def
  by (subst append_missing_extra[where entries = "py_split pathsep (case path of None \<Rightarrow> [] | Some v \<Rightarrow> v)"]) auto

lemma priority_no_sep: "x \<in> set priority \<Longrightarrow> pathsep \<notin> set x"
  by (auto simp: priority_def pathsep_def)

lemma split_priority_first:
  "py_split pathsep (py_join pathsep (priority @ xs)) =
     priority @ (if xs = [] then [] else py_split pathsep (py_join pathsep xs))"
proof (cases xs)
  case Nil
  then show ?thesis by (simp add: priority_def pathsep_def)
next
  case (Cons y ys)
  have a: "CHR '':'' \<notin> set ''/opt/homebrew/bin''" "CHR '':'' \<notin> set ''/opt/homebrew/sbin''" by simp_all
  show ?thesis unfolding Cons priority_def pathsep_def
    using py_split_append_sep[OF a(1)] py_split_append_sep[OF a(2)] by simp
qed

lemma rebuild_path_priority_first:
  "take 2 (py_split pathsep (rebuild_path home path)) = priority"
  unfolding rebuild_path_def Let_def split_priority_first
  by (simp add: priority_def)

lemma npm_dir_no_sep:
  "pathsep \<notin> set (home_text home) \<Longrightarrow> pathsep \<notin> set (expanduser home ''~/.npm-global/bin'')"
  by (cases home) (auto simp: expanduser_def home_text_def pathsep_def dest: set_dropWhileD)

lemma append_missing_set: "set (append_missing es parts) = set es \<union> set parts"
  by (induction es arbitrary: parts) auto

lemma append_missing_present: "set es \<subseteq> set parts \<Longrightarrow> append_missing es parts = parts"
  by (induction es arbitrary: parts) auto

lemma rebuild_path_idem:
  assumes "pathsep \<notin> set (home_text home)"
  shows "rebuild_path home (Some (rebuild_path home path)) = rebuild_path home path"
proof -
  define entries where "entries = py_split pathsep (case path of None \<Rightarrow> [] | Some v \<Rightarrow> v)"
  define parts where "parts = append_missing (extra home) (filter (\<lambda>p. p \<notin> set priority) entries)"
  have r1: "rebuild_path home path = py_join pathsep (priority @ parts)"
    by (simp add: rebuild_path_def parts_def entries_def)
  have extra_no_sep: "\<And>x. x \<in> set (extra home) \<Longrightarrow> pathsep \<notin> set x"
    using npm_dir_no_sep[OF assms] by (auto simp: extra_def pathsep_def)
  have set_parts: "set parts = set (extra home) \<union> set (filter (\<lambda>p. p \<notin> set priority) entries)"
    by (simp add: parts_def append_missing_set)
  have parts_no_sep: "\<And>x. x \<in> set parts \<Longrightarrow> pathsep \<notin> set x"
    unfolding set_parts using extra_no_sep py_split_no_sep[of _ pathsep]
    by (auto simp: entries_def)
  have parts_not_priority: "\<And>x. x \<in> set parts \<Longrightarrow> x \<notin> set priority"
    unfolding set_parts using npm_dir_not_priority[of home] extra_facts(2)
    by (auto simp: extra_def)
  have extra_in: "set (extra home) \<subseteq> set parts"
    by (simp add: set_parts)
  have ne: "priority @ parts \<noteq> []" by (simp add: priority_def)
  have split: "py_split pathsep (py_join pathsep (priority @ parts)) = priority @ parts"
    by (rule py_split_join[OF ne]) (use parts_no_sep priority_no_sep in auto)
  have filt: "filter (\<lambda>p. p \<notin> set priority) (priority @ parts) = parts"
    using parts_not_priority by (simp add: filter_id_conv)
  have "rebuild_path home (Some (py_join pathsep (priority @ parts)))
          = py_join pathsep (priority @ append_missing (extra home) parts)"
    by (simp add: rebuild_path_def split filt del: filter_append)
  also have "\<dots> = py_join pathsep (priority @ parts)"
    by (simp add: append_missing_present[OF extra_in])
  finally show ?thesis by (simp add: r1)
qed

subsection \<open>The Environment Preparer\<close>

text \<open>
  C3. After one call of \<^verbatim>\<open>_ensure_path\<close> the path is the priority directories in their
  declared order, then the original entries without the priority directories, then the
  extra directories that were not among the original entries; the first two entries of
  the result are the priority directories.
\<close>

theorem rebuild_path_layout:
  "rebuild_path home path =
     (let entries = py_split pathsep (case path of None \<Rightarrow> [] | Some v \<Rightarrow> v);
          rest = filter (\<lambda>p. p \<notin> set priority) entries;
          missing = filter (\<lambda>e. e \<notin> set entries) (extra home)
      in py_join pathsep (priority @ rest @ missing))
   \<and> take 2 (py_split pathsep (rebuild_path home path)) = priority
   \<and> snd (ensure_path os s) = s\<lparr>env_PATH := Some (rebuild_path (os_home os) (env_PATH s))\<rparr>"
  using rebuild_path_eq[of home path] rebuild_path_priority_first[of home path]
  by (simp add: ensure_path_def)

text \<open>
  C2, as the code has it. A second call of \<^verbatim>\<open>_ensure_path\<close> leaves the path of the first
  call unchanged, for every starting \<^verbatim>\<open>PATH\<close>, when the home directory contains no colon.
  (With a colon in the home directory the expanded \<^verbatim>\<open>~/.npm-global/bin\<close> is never found
  among the entries of the split path, and every call appends it again.)
\<close>

theorem ensure_path_idempotent:
  assumes "pathsep \<notin> set (home_text (os_home os))"
  shows "rebuild_path (os_home os) (Some (rebuild_path (os_home os) path))
           = rebuild_path (os_home os) path
         \<and> and_then (ensure_path os) (\<lambda>_. ensure_path os) s = ensure_path os s"
  using rebuild_path_idem[OF assms]
  by (simp add: and_then_def ensure_path_def)

theorem ensure_path_idempotent_witness:
  "pathsep \<notin> set (home_text (os_home (static_os [] (\<lambda>_. (0, [])) None (Some ''/home/u''))))
   \<and> and_then (ensure_path (static_os [] (\<lambda>_. (0, [])) None (Some ''/home/u'')))
        (\<lambda>_. ensure_path (static_os [] (\<lambda>_. (0, [])) None (Some ''/home/u'')))
        (start (Some ''/usr/bin:/opt/homebrew/bin''))
      = ensure_path (static_os [] (\<lambda>_. (0, [])) None (Some ''/home/u''))
          (start (Some ''/usr/bin:/opt/homebrew/bin''))"
proof -
  have h: "pathsep \<notin> set (home_text (os_home (static_os [] (\<lambda>_. (0, [])) None (Some ''/home/u''))))"
    by (simp add: static_os_def home_text_def pathsep_def)
  show ?thesis
    using h ensure_path_idempotent[OF h, of None "start (Some ''/usr/bin:/opt/homebrew/bin'')"]
    by simp
qed

text \<open>
  C2, as stated, fails: with the home directory \<^verbatim>\<open>/home/a:b\<close> and the starting path
  \<^verbatim>\<open>/usr/bin\<close>, the second call gives a longer path than the first.
\<close>

theorem ensure_path_twice_differs:
  "rebuild_path (Some ''/home/a:b'') (Some (rebuild_path (Some ''/home/a:b'') (Some ''/usr/bin'')))
     \<noteq> rebuild_path (Some ''/home/a:b'') (Some ''/usr/bin'')"
  by (simp add: rebuild_path_def priority_def extra_def expanduser_def pathsep_def)

subsection \<open>The Identifier Extractor\<close>

lemma first_some_all_None: "(\<And>n. n \<in> set ns \<Longrightarrow> f n = None) \<Longrightarrow> first_some f ns = None"
  by (induction ns) auto

lemma first_some_single:
  assumes "\<And>n. n \<in> set us \<Longrightarrow> f n = None" "\<And>n. n \<in> set vs \<Longrightarrow> f n = None"
  shows "first_some f (us @ i # vs) = f i"
  using assms(1)
proof (induction us)
  case Nil
  then show ?case using first_some_all_None[of vs f] assms(2) by (simp split: option.splits)
next
  case (Cons u us)
  then show ?case by simp
qed

lemma first_some_map: "first_some f (map h ns) = first_some (\<lambda>n. f (h n)) ns"
  by (induction ns) (auto split: option.splits)

lemma first_some_shift: "first_some (\<lambda>n. g (n + a)) [0..<k] = first_some g [a..<k + a]"
  using first_some_map[of g "\<lambda>n. n + a" "[0..<k]"] by (simp add: map_add_upt)

lemma first_some_if:
  "first_some (\<lambda>j. if P j then Some (h j) else None) ns = map_option h (find P ns)"
  by (induction ns) auto

lemma group_only:
  "match_at [Group1Plus c] s = (if takeWhile c s = [] then None else Some (takeWhile c s))"
proof (cases "takeWhile c s = []")
  case True
  then show ?thesis by simp
next
  case False
  then obtain m where m: "length (takeWhile c s) = Suc m" by (cases "takeWhile c s") auto
  have "take (Suc m) s = takeWhile c s"
    using takeWhile_eq_take[of c s] m by simp
  then show ?thesis using False m by simp
qed

lemma star_group:
  assumes disj: "\<And>x. sp x \<Longrightarrow> \<not> c x"
  shows "match_at [Star sp, Group1Plus c] s = match_at [Group1Plus c] (dropWhile sp s)"
proof -
  define k where "k = length (takeWhile sp s)"
  have dk: "drop k s = dropWhile sp s" by (simp add: k_def dropWhile_eq_drop)
  have rest: "match_at [Group1Plus c] (drop n s) = None" if "n \<in> set (rev [0..<k])" for n
  proof -
    from that have nk: "n < k" by simp
    then have "n < length s" using length_takeWhile_le[of sp s] by (simp add: k_def)
    then have d: "drop n s = s ! n # drop (Suc n) s" by (simp add: Cons_nth_drop_Suc)
    have "sp (s ! n)" using nk takeWhile_nth
      by (metis k_def nth_mem set_takeWhileD)
    then have "takeWhile c (drop n s) = []" using disj d by simp
    then show ?thesis by (simp add: group_only)
  qed
  have "match_at [Star sp, Group1Plus c] s
        = first_some (\<lambda>n. match_at [Group1Plus c] (drop n s)) ([] @ k # rev [0..<k])"
    by (simp add: k_def)
  also have "\<dots> = match_at [Group1Plus c] (drop k s)"
    by (rule first_some_single) (use rest in auto)
  finally show ?thesis by (simp add: dk)
qed

lemma space_not_word: "isspace x \<Longrightarrow> \<not> isword_or_dot x"
  by (auto simp: isspace_def isword_or_dot_def isword_def)

lemma key_tail:
  "match_at [Chars key, Star isspace, Group1Plus isword_or_dot] (drop j d)
     = (if key_at key d j then Some (ident_at key d j) else None)"
proof -
  have "match_at [Chars key, Star isspace, Group1Plus isword_or_dot] (drop j d)
        = (if take (length key) (drop j d) = key
           then match_at [Star isspace, Group1Plus isword_or_dot] (drop (length key) (drop j d))
           else None)"
    by (simp only: match_at.simps(2))
  also have "match_at [Star isspace, Group1Plus isword_or_dot] (drop (length key) (drop j d))
        = match_at [Group1Plus isword_or_dot] (dropWhile isspace (drop (j + length key) d))"
    by (simp only: star_group[of isspace isword_or_dot, OF space_not_word] drop_drop add.commute)
  finally show ?thesis
    by (simp only: group_only key_at_def starts_at_def ident_at_def) auto
qed

lemma pattern_at:
  assumes ne: "m \<noteq> []"
  shows "match_at [Chars m, LazyAny, Chars key, Star isspace, Group1Plus isword_or_dot] (drop i d)
     = (if starts_at m d i then map_option (ident_at key d) (first_key key d (i + length m))
        else None)"
proof (cases "starts_at m d i")
  case False
  then show ?thesis by (simp add: starts_at_def)
next
  case True
  then have "length (take (length m) (drop i d)) = length m"
    by (simp only: starts_at_def)
  then have "min (length m) (length d - i) = length m" by simp
  then have len: "i + length m \<le> length d" using ne by (cases m) auto
  let ?tail = "[Chars key, Star isspace, Group1Plus isword_or_dot]"
  have "match_at (Chars m # LazyAny # ?tail) (drop i d)
        = match_at (LazyAny # ?tail) (drop (length m) (drop i d))"
    using True by (simp only: match_at.simps(2) starts_at_def if_True simp_thms)
  also have "\<dots> = first_some (\<lambda>n. match_at ?tail (drop (n + (i + length m)) d))
            [0..<Suc (length d - (i + length m))]"
    by (simp only: match_at.simps(3) drop_drop length_drop add.commute add.left_commute
        diff_diff_left)
  also have "\<dots> = first_some (\<lambda>j. match_at ?tail (drop j d)) [i + length m..<Suc (length d)]"
    using len first_some_shift[of "\<lambda>j. match_at ?tail (drop j d)" "i + length m"
        "Suc (length d - (i + length m))"]
    by simp
  also have "\<dots> = map_option (ident_at key d) (first_key key d (i + length m))"
    by (simp only: key_tail first_some_if first_key_def)
  finally show ?thesis using True by simp
qed









subsection \<open>The slug\<close>


subsection \<open>The Command Runner\<close>

text \<open>
  C6. With \<^verbatim>\<open>capture=True\<close>, \<^verbatim>\<open>run\<close> returns the standard output of the command, stripped
  of surrounding whitespace, when the exit code is zero; it returns \<^verbatim>\<open>None\<close> exactly when
  \<^verbatim>\<open>check\<close> is true and the exit code is not zero.
\<close>

theorem run_capture_result:
  assumes "os_shell os (env_PATH s) (world s) cmd = (returncode, stdout, w')"
  shows "(returncode = 0 \<longrightarrow> fst (run os cmd True check s) = Returned (Some (py_strip stdout)))
         \<and> (fst (run os cmd True check s) = Returned None \<longleftrightarrow> check \<and> returncode \<noteq> 0)"
  using assms by (simp add: run_def Let_def)

theorem run_capture_result_witness:
  "os_shell (static_os [] (\<lambda>_. (0, ''  v18.1\<newline>'')) None None) (env_PATH (start None))
       (world (start None)) ''node --version'' = (0, ''  v18.1\<newline>'', ())
   \<and> fst (run (static_os [] (\<lambda>_. (0, ''  v18.1\<newline>'')) None None) ''node --version'' True True
            (start None)) = Returned (Some ''v18.1'')"
proof -
  have h: "os_shell (static_os [] (\<lambda>_. (0, ''  v18.1\<newline>'')) None None) (env_PATH (start None))
       (world (start None)) ''node --version'' = (0, ''  v18.1\<newline>'', ())"
    by (simp add: static_os_def)
  have "py_strip ''  v18.1\<newline>'' = ''v18.1''"
    by (simp add: py_strip_def isspace_def)
  then show ?thesis
    using h run_capture_result[OF h, of True] by simp
qed

subsection \<open>Sequencing\<close>

lemma run_unchecked:
  "run os cmd False False s
     = (Returned None,
        s\<lparr>world := snd (snd (os_shell os (env_PATH s) (world s) cmd)),
          trace := trace s @ [Exec cmd]\<rparr>)"
  by (simp add: run_def split: prod.splits)

lemma run_trace: "trace (snd (run os cmd capture check s)) = trace s @ [Exec cmd]"
  by (simp add: run_def Let_def split: prod.splits)

lemma appends_return: "appends P (return a)"
  by (simp add: appends_def return_def)

lemma appends_sys_exit: "appends P (sys_exit n)"
  by (simp add: appends_def sys_exit_def)

lemma appends_print_line: "P (Print t) \<Longrightarrow> appends P (print_line t)"
  by (simp add: appends_def print_line_def)

lemma appends_run: "P (Exec cmd) \<Longrightarrow> appends P (run os cmd capture check)"
  by (simp add: appends_def run_trace)

lemma appends_ensure_path: "appends P (ensure_path os)"
  by (simp add: appends_def ensure_path_def)

lemma appends_and_then:
  assumes "appends P m" "\<And>a. appends P (f a)"
  shows "appends P (and_then m f)"
  unfolding appends_def
proof
  fix s
  obtain r s1 where m: "m s = (r, s1)" by (cases "m s")
  from assms(1) obtain evs where e1: "trace s1 = trace s @ evs" "list_all P evs"
    unfolding appends_def using m by (metis snd_conv)
  show "\<exists>evs. trace (snd (and_then m f s)) = trace s @ evs \<and> list_all P evs"
  proof (cases r)
    case (Returned a)
    from assms(2)[of a] obtain evs2 where "trace (snd (f a s1)) = trace s1 @ evs2" "list_all P evs2"
      unfolding appends_def by blast
    then show ?thesis using e1 m Returned by (auto simp: and_then_def)
  next
    case (SysExit n)
    then show ?thesis using e1 m by (auto simp: and_then_def)
  next
    case (Raised e)
    then show ?thesis using e1 m by (auto simp: and_then_def)
  qed
qed

lemma appends_if:
  "appends P m1 \<Longrightarrow> appends P m2 \<Longrightarrow> appends P (\<lambda>s. if c s then m1 s else m2 s)"
  by (simp add: appends_def)

lemmas appends_intros = appends_return appends_sys_exit appends_print_line appends_run
  appends_ensure_path appends_and_then appends_if

lemma run_capture_unchecked_eq:
  "run os cmd True False s
     = (Returned (Some (py_strip (fst (snd (os_shell os (env_PATH s) (world s) cmd))))),
        s\<lparr>world := snd (snd (os_shell os (env_PATH s) (world s) cmd)),
          trace := trace s @ [Exec cmd]\<rparr>)"
  by (simp add: run_def split: prod.splits)

lemma appends_and_then_capture:
  assumes "P (Exec cmd)" "\<And>out. appends P (f (Some out))"
  shows "appends P (and_then (run os cmd True False) f)"
  unfolding appends_def
proof
  fix s :: "'a state"
  let ?out = "py_strip (fst (snd (os_shell os (env_PATH s) (world s) cmd)))"
  let ?s1 = "s\<lparr>world := snd (snd (os_shell os (env_PATH s) (world s) cmd)),
          trace := trace s @ [Exec cmd]\<rparr>"
  from assms(2)[of ?out] obtain evs where
    e: "trace (snd (f (Some ?out) ?s1)) = trace ?s1 @ evs" "list_all P evs"
    unfolding appends_def by blast
  have "and_then (run os cmd True False) f s = f (Some ?out) ?s1"
    by (simp add: and_then_def run_capture_unchecked_eq)
  then have "trace (snd (and_then (run os cmd True False) f s)) = trace s @ (Exec cmd # evs)"
    using e(1) by simp
  moreover have "list_all P (Exec cmd # evs)" using assms(1) e(2) by simp
  ultimately show "\<exists>evs. trace (snd (and_then (run os cmd True False) f s)) = trace s @ evs
      \<and> list_all P evs" by blast
qed

lemma trace_step: "trace (step os e s) = trace s @ [e]"
  by (cases e) simp_all

lemma trace_after: "trace (after os es s) = trace s @ es"
  by (induction es arbitrary: s) (simp_all add: trace_step)

lemma after_append: "after os (es @ es') s = after os es' (after os es s)"
  by (induction es arbitrary: s) simp_all

lemma performs_print_line: "performs os (print_line t) s (Returned ()) [Print t]"
  by (simp add: performs_def print_line_def)

lemma performs_run_unchecked: "performs os (run os cmd False False) s (Returned None) [Exec cmd]"
  by (simp add: performs_def run_unchecked)

lemma performs_mkdir_parents: "performs os (mkdir_parents os path) s (Returned ()) [Mkdir path]"
  by (simp add: performs_def mkdir_parents_def)

lemma performs_return: "performs os (return a) s (Returned a) []"
  by (simp add: performs_def return_def)

lemma performs_seq:
  assumes "performs os m s (Returned a) es" "performs os (f a) (after os es s) r es'"
  shows "performs os (and_then m f) s r (es @ es')"
  using assms by (simp add: performs_def and_then_def after_append)

lemma performs_eq: "performs os m s r es \<Longrightarrow> es = es' \<Longrightarrow> performs os m s r es'"
  by simp

lemma performs_if_state:
  assumes "c s \<Longrightarrow> performs os m1 s r es1" "\<not> c s \<Longrightarrow> performs os m2 s r es2"
  shows "performs os (\<lambda>s. if c s then m1 s else m2 s) s r (if c s then es1 else es2)"
  using assms by (simp add: performs_def)

subsection \<open>The prerequisite checks\<close>

lemma check_node_version_events: "appends prerequisite_event (check_node_version os)"
proof -
  have eq: "check_node_version os = (\<lambda>s. check_node_version os s)" by simp
  show ?thesis
    apply (subst eq)
    unfolding check_node_version_def
    by (auto intro!: appends_intros split: option.splits simp: prerequisite_event_def)
qed

lemma install_firebase_events:
  "appends prerequisite_event (\<lambda>s.
       if \<not> command_exists os ''firebase'' s then
         (if command_exists os ''npm'' s then
            and_then (print_line ''Installing Firebase CLI via npm...'') (\<lambda>_.
            and_then (run os ''npm install -g firebase-tools'' False True) (\<lambda>_.
            return ())) s
          else if os_system os = ''Darwin'' \<and> command_exists os ''brew'' s then
            and_then (print_line ''Installing Firebase CLI via Homebrew...'') (\<lambda>_.
            and_then (run os ''brew install firebase-cli'' False True) (\<lambda>_.
            return ())) s
          else
            and_then (print_line ''Error: Install Firebase CLI manually:'') (\<lambda>_.
            and_then (print_line ''  npm install -g firebase-tools'') (\<lambda>_.
            and_then (print_line ''  https://firebase.google.com/docs/cli'') (\<lambda>_.
            sys_exit 1))) s)
       else return () s)"
  by (intro appends_intros) (simp_all add: prerequisite_event_def)

lemma check_prerequisites_events: "appends prerequisite_event (check_prerequisites os)"
  unfolding check_prerequisites_def
  apply (rule appends_and_then[OF check_node_version_events])
  apply (rule appends_and_then[OF install_firebase_events])
  apply (rule appends_and_then_capture)
   apply (simp add: prerequisite_event_def)
  apply (simp add: appends_return)
  done

text \<open>
  C10. With \<^verbatim>\<open>capture=True\<close> and \<^verbatim>\<open>check=False\<close>, \<^verbatim>\<open>run\<close> returns the stripped output
  of the command whatever its exit code, and never \<^verbatim>\<open>None\<close>; so \<^verbatim>\<open>check_prerequisites\<close>
  never takes the branch that prints the login notice and runs \<^verbatim>\<open>firebase login\<close>.
\<close>

theorem login_fallback_unreachable:
  "fst (run os cmd True False s)
     = Returned (Some (py_strip (fst (snd (os_shell os (env_PATH s) (world s) cmd)))))
   \<and> fst (run os cmd True False s) \<noteq> Returned None
   \<and> (\<exists>evs. trace (snd (check_prerequisites os s)) = trace s @ evs
          \<and> Print ''You need to log in to Firebase.'' \<notin> set evs
          \<and> Exec ''firebase login'' \<notin> set evs)"
proof -
  obtain evs where e: "trace (snd (check_prerequisites os s)) = trace s @ evs"
      "list_all prerequisite_event evs"
    using check_prerequisites_events[of os] unfolding appends_def by blast
  have "\<not> prerequisite_event (Print ''You need to log in to Firebase.'')"
    "\<not> prerequisite_event (Exec ''firebase login'')"
    by (simp_all add: prerequisite_event_def)
  then have "Print ''You need to log in to Firebase.'' \<notin> set evs"
    "Exec ''firebase login'' \<notin> set evs"
    using e(2) unfolding list_all_iff by blast+
  then show ?thesis using e(1) by (auto simp: run_capture_unchecked_eq)
qed

subsection \<open>The Provisioning Orchestrator\<close>

lemma ios_registration_performs:
  \<open>performs os
     (if truthy ios_bundle_id then
        and_then (print_line (''Registering iOS app ('' @ str_or_none ios_bundle_id
                               @ '')...'')) (\<lambda>_.
        and_then (run os (''firebase apps:create ios --bundle-id "''
                           @ str_or_none ios_bundle_id
                           @ ''" --project "'' @ project_id @ ''"'') False False) (\<lambda>_.
        return ()))
      else return ())
     s (Returned ()) (ios_registration_events project_id ios_bundle_id)\<close>
proof (cases "truthy ios_bundle_id")
  case True
  then show ?thesis
    unfolding ios_registration_events_def
    by (simp only: if_True)
      (rule performs_eq, (rule performs_seq performs_print_line performs_run_unchecked
          performs_return)+, simp)
next
  case False
  then show ?thesis
    unfolding ios_registration_events_def by (simp only: if_False performs_return)
qed

lemma android_registration_performs:
  \<open>performs os
     (if truthy android_bundle_id then
        and_then (print_line (''Registering Android app ('' @ str_or_none android_bundle_id
                               @ '')...'')) (\<lambda>_.
        and_then (run os (''firebase apps:create android --package-name "''
                           @ str_or_none android_bundle_id
                           @ ''" --project "'' @ project_id @ ''"'') False False) (\<lambda>_.
        return ()))
      else return ())
     s (Returned ()) (android_registration_events project_id android_bundle_id)\<close>
proof (cases "truthy android_bundle_id")
  case True
  then show ?thesis
    unfolding android_registration_events_def
    by (simp only: if_True)
      (rule performs_eq, (rule performs_seq performs_print_line performs_run_unchecked
          performs_return)+, simp)
next
  case False
  then show ?thesis
    unfolding android_registration_events_def by (simp only: if_False performs_return)
qed

lemma setup_firebase_performs:
  "\<exists>gcloud. performs os (setup_firebase os game_name project_id ios android) s (Returned ())
     (setup_firebase_events game_name project_id ios android gcloud)"
proof -
  have "\<exists>es. performs os (setup_firebase os game_name project_id ios android) s (Returned ()) es
      \<and> (\<exists>gcloud. es = setup_firebase_events game_name project_id ios android gcloud)"
    unfolding setup_firebase_def
    apply (rule exI, rule conjI)
     apply (rule performs_seq performs_print_line performs_run_unchecked performs_return
        performs_mkdir_parents ios_registration_performs android_registration_performs
        performs_if_state)+
    apply (simp add: setup_firebase_events_def project_creation_events_def download_events_def
        service_account_events_def settings_dir_def)
    apply (metis (full_types))
    done
  then show ?thesis by blast
qed

lemma setup_firebase_trace:
  "\<exists>gcloud. trace (snd (setup_firebase os game_name project_id ios android s))
     = trace s @ project_creation_events game_name project_id
         @ ios_registration_events project_id ios
         @ android_registration_events project_id android
         @ download_events project_id
         @ service_account_events project_id gcloud"
  using setup_firebase_performs[of os game_name project_id ios android s]
  by (auto simp: performs_def trace_after setup_firebase_events_def)

lemma setup_firebase_returns:
  "fst (setup_firebase os game_name project_id ios android s) = Returned ()"
  using setup_firebase_performs[of os game_name project_id ios android s]
  by (auto simp: performs_def)

text \<open>
  C5. Every run of \<^verbatim>\<open>setup_firebase\<close> returns normally, and its events are: the project
  creation, the registrations (each only for an identifier that is present), then the
  creation of the output directory followed by the iOS download and the Android
  download, then the service account step. The downloads do not depend on the
  identifiers or on what any command answered.
\<close>

theorem setup_firebase_downloads_unconditional:
  "fst (setup_firebase os game_name project_id ios android s) = Returned ()
   \<and> (\<exists>gcloud.
         trace (snd (setup_firebase os game_name project_id ios android s))
           = trace s @ project_creation_events game_name project_id
               @ ios_registration_events project_id ios
               @ android_registration_events project_id android
               @ download_events project_id
               @ service_account_events project_id gcloud)"
  using setup_firebase_trace[of os game_name project_id ios android s]
    setup_firebase_returns[of os game_name project_id ios android s]
  by simp

lemma search_no_key:
  assumes "m \<noteq> []" "occurrences key d = []"
  shows "re_search [Chars m, LazyAny, Chars key, Star isspace, Group1Plus isword_or_dot] d = None"
proof -
  have nk: "\<not> key_at key d j" if "j \<in> set [0..<Suc (length d)]" for j
    using assms(2) that unfolding occurrences_def filter_empty_conv key_at_def by blast
  have fk: "first_key key d a = None" for a
    unfolding first_key_def find_None_iff using nk by auto
  show ?thesis
    unfolding re_search_def
    by (intro first_some_all_None) (simp only: pattern_at[OF assms(1)] fk option.map if_cancel)
qed

lemma no_android_key: "occurrences ''Android:'' d = [] \<Longrightarrow> snd (parse_bundle_ids d) = None"
  using search_no_key[of "''applicationIdentifier:''" "''Android:''" d]
  by (simp add: parse_bundle_ids_def android_pattern_def)

lemma ios_only_no_android: "occurrences ''Android:'' ios_only_document = []"
  by (simp add: occurrences_def starts_at_def ios_only_document_def upt_rec)

text \<open>
  C4, as the code has it. For a settings document without the \<^verbatim>\<open>Android:\<close> key the
  extractor reports the Android identifier absent, and \<^verbatim>\<open>setup_firebase\<close> then adds no
  event for the Android registration; the output directory and both downloads, the
  Android one included, still follow, and the iOS registration is made when the
  extractor found an iOS identifier.
\<close>

theorem setup_firebase_without_android_key:
  assumes "occurrences ''Android:'' d = []"
  shows "snd (parse_bundle_ids d) = None
    \<and> fst (setup_firebase os game_name project_id
              (fst (parse_bundle_ids d)) (snd (parse_bundle_ids d)) s) = Returned ()
    \<and> (\<exists>gcloud.
          trace (snd (setup_firebase os game_name project_id
                        (fst (parse_bundle_ids d)) (snd (parse_bundle_ids d)) s))
            = trace s @ project_creation_events game_name project_id
                @ ios_registration_events project_id (fst (parse_bundle_ids d))
                @ download_events project_id
                @ service_account_events project_id gcloud)"
proof -
  have a: "snd (parse_bundle_ids d) = None" by (rule no_android_key[OF assms])
  have "android_registration_events project_id (snd (parse_bundle_ids d)) = []"
    by (simp add: a android_registration_events_def truthy_def)
  then show ?thesis
    using a setup_firebase_trace[of os game_name project_id "fst (parse_bundle_ids d)"
        "snd (parse_bundle_ids d)" s]
      setup_firebase_returns[of os game_name project_id "fst (parse_bundle_ids d)"
        "snd (parse_bundle_ids d)" s]
    by simp
qed

theorem setup_firebase_without_android_key_witness:
  "occurrences ''Android:'' ios_only_document = []
   \<and> snd (parse_bundle_ids ios_only_document) = None
   \<and> fst (setup_firebase (static_os [] (\<lambda>_. (0, [])) (Some ios_only_document) None)
            ''My Game'' ''hcg-my-game''
            (fst (parse_bundle_ids ios_only_document))
            (snd (parse_bundle_ids ios_only_document)) (start None)) = Returned ()"
proof -
  have h: "occurrences ''Android:'' ios_only_document = []"
    by (simp add: occurrences_def starts_at_def ios_only_document_def upt_rec)
  show ?thesis
    using h setup_firebase_without_android_key[OF h,
        of "static_os [] (\<lambda>_. (0, [])) (Some ios_only_document) None" "''My Game''"
          "''hcg-my-game''" "start None"]
    by blast
qed

text \<open>
  C4, as stated, fails: for a document with the \<^verbatim>\<open>iPhone:\<close> key only, the Android
  configuration download is among the events of \<^verbatim>\<open>setup_firebase\<close>.
\<close>

theorem android_download_not_skipped:
  \<open>occurrences ''Android:'' ios_only_document = []
   \<and> snd (parse_bundle_ids ios_only_document) = None
   \<and> Exec (''firebase apps:sdkconfig android --project "hcg-my-game" ''
            @ ''--out "Assets/Settings/google-services.json"'')
      \<in> set (trace (snd (setup_firebase (static_os [] (\<lambda>_. (0, [])) (Some ios_only_document) None)
                           ''My Game'' ''hcg-my-game''
                           (fst (parse_bundle_ids ios_only_document))
                           (snd (parse_bundle_ids ios_only_document)) (start None))))\<close>
proof -
  obtain gcloud where
    "trace (snd (setup_firebase (static_os [] (\<lambda>_. (0, [])) (Some ios_only_document) None)
                           ''My Game'' ''hcg-my-game''
                           (fst (parse_bundle_ids ios_only_document))
                           (snd (parse_bundle_ids ios_only_document)) (start None)))
      = trace (start None) @ project_creation_events ''My Game'' ''hcg-my-game''
         @ ios_registration_events ''hcg-my-game'' (fst (parse_bundle_ids ios_only_document))
         @ android_registration_events ''hcg-my-game'' (snd (parse_bundle_ids ios_only_document))
         @ download_events ''hcg-my-game''
         @ service_account_events ''hcg-my-game'' gcloud"
    using setup_firebase_trace by blast
  then show ?thesis
    using ios_only_no_android no_android_key[OF ios_only_no_android]
    by (simp add: download_events_def)
qed

subsection \<open>The driver and the fatal conditions\<close>

lemma always_returns_and_then:
  assumes "always_returns m" "\<And>a. always_returns (f a)"
  shows "always_returns (and_then m f)"
  unfolding always_returns_def
proof
  fix s
  obtain r s1 where m: "m s = (r, s1)" by (cases "m s")
  from assms(1) obtain a where "r = Returned a"
    unfolding always_returns_def using m by (metis fst_conv)
  then have "and_then m f s = f a s1" using m by (simp add: and_then_def)
  then show "\<exists>a. fst (and_then m f s) = Returned a"
    using assms(2)[of a] unfolding always_returns_def by simp
qed

lemma always_returns_basic:
  "always_returns (return a)"
  "always_returns (print_line t)"
  "always_returns (run os cmd False False)"
  "always_returns (mkdir_parents os path)"
  "always_returns (write_text os path content)"
  by (simp_all add: always_returns_def return_def print_line_def run_unchecked
      mkdir_parents_def write_text_def)

lemma always_returns_if:
  "always_returns m1 \<Longrightarrow> always_returns m2 \<Longrightarrow> always_returns (\<lambda>s. if c s then m1 s else m2 s)"
  by (simp add: always_returns_def)

lemma always_returns_setup_firebase:
  "always_returns (setup_firebase os game_name project_id ios android)"
  by (simp add: always_returns_def setup_firebase_returns)

lemma always_returns_write_file: "always_returns (write_file os path content)"
  unfolding write_file_def
  by (intro always_returns_and_then always_returns_basic)

lemma always_returns_generate_boilerplate: "always_returns (generate_boilerplate os game_name)"
  unfolding generate_boilerplate_def
  by (intro always_returns_and_then always_returns_write_file)

lemma always_returns_generate_gemfile_lock: "always_returns (generate_gemfile_lock os)"
proof -
  have eq: "generate_gemfile_lock os = (\<lambda>s. generate_gemfile_lock os s)" by simp
  show ?thesis
    by (subst eq, unfold generate_gemfile_lock_def)
      (intro always_returns_if always_returns_and_then always_returns_basic)
qed

lemma read_bundle_ids_missing:
  assumes "\<not> os_exists os (world s) settings_path"
  shows "read_bundle_ids os s = (SysExit 1, s\<lparr>trace := trace s @ [settings_missing]\<rparr>)"
  using assms
  by (simp add: read_bundle_ids_def and_then_def print_line_def sys_exit_def settings_path_def
      settings_missing_def)

lemma read_bundle_ids_present:
  assumes "os_exists os (world s) settings_path"
  shows "\<exists>s'. read_bundle_ids os s
            = (Returned (parse_bundle_ids (os_read_text os (world s) settings_path)), s')"
  using assms
  by (simp add: read_bundle_ids_def and_then_def print_line_def return_def
      split: prod.splits)

lemma check_node_version_absent:
  assumes "\<not> truthy (os_which os (env_PATH s) (world s) ''node'')"
  shows "check_node_version os s = (Returned (), s)"
  using assms by (simp add: check_node_version_def return_def)

lemma version_match_nonempty: "re_match version_pattern v = Some g \<Longrightarrow> v \<noteq> []"
  by (auto simp: re_match_def version_pattern_def)

lemma check_node_version_too_old:
  assumes node: "truthy (os_which os (env_PATH s) (world s) ''node'')"
    and ver: "os_shell os (env_PATH s) (world s) ''node --version'' = (rc, out, w')"
    and m: "re_match version_pattern (py_strip out) = Some g"
    and old: "py_int g < 20"
    and nobrew: "os_which os (env_PATH s) w' ''brew'' = None"
  shows "check_node_version os s
           = (SysExit 1, s\<lparr>world := w', trace := trace s @ too_old_events (py_strip out)\<rparr>)"
proof -
  have ne: "py_strip out \<noteq> []" using version_match_nonempty[OF m] .
  have r: "run os ''node --version'' True False s
      = (Returned (Some (py_strip out)), s\<lparr>world := w', trace := trace s @ [Exec ''node --version'']\<rparr>)"
    by (simp add: run_capture_unchecked_eq ver)
  show ?thesis
    unfolding check_node_version_def
    using node ne m old nobrew
    by (simp add: and_then_def r truthy_def str_or_none_def print_line_def sys_exit_def
        command_exists_def too_old_events_def)
qed

lemma check_prerequisites_exit:
  "check_node_version os s = (SysExit n, s') \<Longrightarrow> check_prerequisites os s = (SysExit n, s')"
  by (simp add: check_prerequisites_def and_then_def)

lemma main_exit_in_prerequisites:
  assumes "2 \<le> length argv"
    and "check_prerequisites os (s\<lparr>trace := trace s @ [greeting argv]\<rparr>) = (SysExit n, s')"
  shows "main os argv s = (SysExit n, s')"
  using assms
  by (simp add: main_def Let_def and_then_def print_line_def greeting_def)

lemma main_missing_settings:
  assumes "2 \<le> length argv"
    and "check_prerequisites os (s\<lparr>trace := trace s @ [greeting argv]\<rparr>) = (Returned (), s1)"
    and "\<not> os_exists os (world s1) settings_path"
  shows "main os argv s = (SysExit 1, s1\<lparr>trace := trace s1 @ [settings_missing]\<rparr>)"
  using assms read_bundle_ids_missing[OF assms(3)]
  by (simp add: main_def Let_def and_then_def print_line_def greeting_def)

lemma main_returns:
  assumes "2 \<le> length argv"
    and cp: "check_prerequisites os (s\<lparr>trace := trace s @ [greeting argv]\<rparr>) = (Returned (), s1)"
    and ex: "os_exists os (world s1) settings_path"
  shows "fst (main os argv s) = Returned ()"
proof -
  obtain ios android where ids: "parse_bundle_ids (os_read_text os (world s1) settings_path) = (ios, android)"
    by (cases "parse_bundle_ids (os_read_text os (world s1) settings_path)")
  obtain s2 where rb: "read_bundle_ids os s1 = (Returned (ios, android), s2)"
    using read_bundle_ids_present[OF ex] ids by auto
  have pl: "print_line (''Setting up CI/CD for '' @ argv ! 1 @ ''...\<newline>'') s
      = (Returned (), s\<lparr>trace := trace s @ [greeting argv]\<rparr>)"
    by (simp add: print_line_def greeting_def)
  let ?rest = "and_then (print_line (''iOS bundle ID: '' @ str_or_none ios)) (\<lambda>_.
           and_then (print_line (''Android bundle ID: '' @ str_or_none android)) (\<lambda>_.
           and_then (setup_firebase os (argv ! 1) (project_slug (argv ! 1)) ios android) (\<lambda>_.
           and_then (print_line ''\<newline>Generating CI/CD files...'') (\<lambda>_.
           and_then (generate_boilerplate os (argv ! 1)) (\<lambda>_.
           and_then (generate_gemfile_lock os) (\<lambda>_.
           print_line summary))))))"
  have e1: "and_then (print_line (''Setting up CI/CD for '' @ argv ! 1 @ ''...\<newline>'')) f s
      = f () (s\<lparr>trace := trace s @ [greeting argv]\<rparr>)" for f :: "unit \<Rightarrow> ('a, unit) prog"
    unfolding and_then_def pl by simp
  have e2: "and_then (check_prerequisites os) f (s\<lparr>trace := trace s @ [greeting argv]\<rparr>) = f () s1"
    for f :: "unit \<Rightarrow> ('a, unit) prog"
    unfolding and_then_def cp by simp
  have e3: "and_then (read_bundle_ids os) f s1 = f (ios, android) s2"
    for f :: "string option \<times> string option \<Rightarrow> ('a, unit) prog"
    unfolding and_then_def rb by simp
  have nl: "(length argv < 2) = False" using assms(1) by simp
  have "main os argv s = ?rest s2"
    unfolding main_def Let_def nl if_False e1 e2 e3 case_prod_conv ..
  moreover have "always_returns ?rest"
    by (intro always_returns_and_then always_returns_basic always_returns_setup_firebase
        always_returns_generate_boilerplate always_returns_generate_gemfile_lock)
  ultimately show ?thesis unfolding always_returns_def by (metis (full_types) old.unit.exhaust)
qed

text \<open>
  C7, as the code has it. When \<^verbatim>\<open>node\<close> is on the search path, \<^verbatim>\<open>node --version\<close> prints
  \<^verbatim>\<open>v\<close> and a major version below 20, and \<^verbatim>\<open>brew\<close> is not on the search path, then
  \<^verbatim>\<open>check_node_version\<close> prints its two diagnostics and exits with status 1, and so does
  the whole run, right after its first line. When \<^verbatim>\<open>node\<close> is not on the search path,
  \<^verbatim>\<open>check_node_version\<close> returns without printing anything and the run goes on.
\<close>

theorem old_node_without_brew_is_fatal:
  "(\<not> truthy (os_which os (env_PATH s) (world s) ''node'')
      \<longrightarrow> check_node_version os s = (Returned (), s))
   \<and> (truthy (os_which os (env_PATH s) (world s) ''node'')
        \<and> os_shell os (env_PATH s) (world s) ''node --version'' = (rc, out, w')
        \<and> re_match version_pattern (py_strip out) = Some g \<and> py_int g < 20
        \<and> os_which os (env_PATH s) w' ''brew'' = None
        \<and> 2 \<le> length argv
      \<longrightarrow> check_node_version os s
            = (SysExit 1, s\<lparr>world := w', trace := trace s @ too_old_events (py_strip out)\<rparr>)
          \<and> main os argv s
            = (SysExit 1,
               s\<lparr>world := w', trace := trace s @ greeting argv # too_old_events (py_strip out)\<rparr>)
          \<and> exit_status (fst (main os argv s)) = 1)"
proof (intro conjI impI)
  assume "\<not> truthy (os_which os (env_PATH s) (world s) ''node'')"
  then show "check_node_version os s = (Returned (), s)"
    by (rule check_node_version_absent)
next
  assume a: "truthy (os_which os (env_PATH s) (world s) ''node'')
        \<and> os_shell os (env_PATH s) (world s) ''node --version'' = (rc, out, w')
        \<and> re_match version_pattern (py_strip out) = Some g \<and> py_int g < 20
        \<and> os_which os (env_PATH s) w' ''brew'' = None
        \<and> 2 \<le> length argv"
  show c: "check_node_version os s
            = (SysExit 1, s\<lparr>world := w', trace := trace s @ too_old_events (py_strip out)\<rparr>)"
    using a check_node_version_too_old[of os s rc out w' g] by blast
  let ?s = "s\<lparr>trace := trace s @ [greeting argv]\<rparr>"
  have "check_node_version os ?s
            = (SysExit 1, ?s\<lparr>world := w', trace := trace ?s @ too_old_events (py_strip out)\<rparr>)"
    using a check_node_version_too_old[of os ?s rc out w' g] by simp
  then have "check_prerequisites os ?s
            = (SysExit 1, s\<lparr>world := w', trace := trace s @ greeting argv # too_old_events (py_strip out)\<rparr>)"
    using check_prerequisites_exit by fastforce
  then show m: "main os argv s
            = (SysExit 1,
               s\<lparr>world := w', trace := trace s @ greeting argv # too_old_events (py_strip out)\<rparr>)"
    using a main_exit_in_prerequisites by blast
  show "exit_status (fst (main os argv s)) = 1"
    by (simp add: m exit_status_def)
qed

theorem old_node_without_brew_is_fatal_witness:
  "truthy (os_which (static_os [''node''] (\<lambda>_. (0, ''v18.19.0\<newline>'')) None None)
            (env_PATH (start None)) (world (start None)) ''node'')
   \<and> os_shell (static_os [''node''] (\<lambda>_. (0, ''v18.19.0\<newline>'')) None None)
         (env_PATH (start None)) (world (start None)) ''node --version''
       = (0, ''v18.19.0\<newline>'', ())
   \<and> re_match version_pattern (py_strip ''v18.19.0\<newline>'') = Some ''18''
   \<and> py_int ''18'' < 20
   \<and> os_which (static_os [''node''] (\<lambda>_. (0, ''v18.19.0\<newline>'')) None None)
         (env_PATH (start None)) () ''brew'' = None
   \<and> 2 \<le> length [''setup.py'', ''My Game'']
   \<and> exit_status (fst (main (static_os [''node''] (\<lambda>_. (0, ''v18.19.0\<newline>'')) None None)
                          [''setup.py'', ''My Game''] (start None))) = 1
   \<and> \<not> truthy (os_which (static_os [] (\<lambda>_. (0, [])) None None)
              (env_PATH (start None)) (world (start None)) ''node'')
   \<and> check_node_version (static_os [] (\<lambda>_. (0, [])) None None) (start None)
       = (Returned (), start None)"
proof -
  let ?os = "static_os [''node''] (\<lambda>_. (0, ''v18.19.0\<newline>'')) None None"
  have h1: "truthy (os_which ?os (env_PATH (start None)) (world (start None)) ''node'')"
    by (simp add: static_os_def truthy_def)
  have h2: "os_shell ?os (env_PATH (start None)) (world (start None)) ''node --version''
       = (0, ''v18.19.0\<newline>'', ())"
    by (simp add: static_os_def)
  have h3: "re_match version_pattern (py_strip ''v18.19.0\<newline>'') = Some ''18''"
    by code_simp
  have h4: "py_int ''18'' < 20"
    by (simp add: py_int_def digit_value_def)
  have h5: "os_which ?os (env_PATH (start None)) () ''brew'' = None"
    by (simp add: static_os_def)
  have h6: "2 \<le> length [''setup.py'', ''My Game'']" by simp
  have h7: "\<not> truthy (os_which (static_os [] (\<lambda>_. (0, [])) None None)
              (env_PATH (start None)) (world (start None)) ''node'')"
    by (simp add: static_os_def truthy_def)
  note t1 = old_node_without_brew_is_fatal[of ?os "start None" 0 "''v18.19.0\<newline>''" "()"
      "''18''" "[''setup.py'', ''My Game'']"]
  note t2 = old_node_without_brew_is_fatal[of "static_os [] (\<lambda>_. (0, [])) None None" "start None"]
  from t1 h1 h2 h3 h4 h5 h6
  have a: "exit_status (fst (main ?os [''setup.py'', ''My Game''] (start None))) = 1" by blast
  from t2 h7
  have b: "check_node_version (static_os [] (\<lambda>_. (0, [])) None None) (start None)
       = (Returned (), start None)" by blast
  show ?thesis using h1 h2 h3 h4 h5 h6 h7 a b by blast
qed

text \<open>
  C7, as stated, fails: where \<^verbatim>\<open>node\<close> is absent and the Firebase CLI is installed, the
  run is not stopped; with the settings document in place it ends with status 0.
\<close>

theorem node_absent_run_continues:
  "os_which (static_os [''firebase'', ''gcloud'', ''bundle''] (\<lambda>_. (0, []))
              (Some example_document) (Some ''/home/u'')) None () ''node'' = None
   \<and> exit_status (fst (program (static_os [''firebase'', ''gcloud'', ''bundle''] (\<lambda>_. (0, []))
                                   (Some example_document) (Some ''/home/u''))
                          [''setup.py'', ''My Game''] (start None))) = 0"
proof -
  let ?os = "static_os [''firebase'', ''gcloud'', ''bundle''] (\<lambda>_. (0, []))
              (Some example_document) (Some ''/home/u'')"
  let ?argv = "[''setup.py'', ''My Game'']"
  let ?s = "(start None)\<lparr>env_PATH := Some (rebuild_path (os_home ?os) (env_PATH (start None)))\<rparr>"
  have p: "program ?os ?argv (start None) = main ?os ?argv ?s"
    by (simp add: program_def and_then_def ensure_path_def)
  have "fst (check_prerequisites ?os (?s\<lparr>trace := trace ?s @ [greeting ?argv]\<rparr>)) = Returned ()"
    by (simp add: check_prerequisites_def check_node_version_def and_then_def return_def
        run_def static_os_def command_exists_def truthy_def)
  then obtain s1 where cp: "check_prerequisites ?os (?s\<lparr>trace := trace ?s @ [greeting ?argv]\<rparr>)
      = (Returned (), s1)"
    by (metis prod.collapse)
  have ex: "os_exists ?os (world s1) settings_path" by (simp add: static_os_def)
  have "fst (main ?os ?argv ?s) = Returned ()"
    by (rule main_returns[OF _ cp ex]) simp
  then show ?thesis by (simp add: p exit_status_def) (simp add: static_os_def)
qed

text \<open>
  C8. When the settings document does not exist, \<^verbatim>\<open>read_bundle_ids\<close> prints its
  diagnostic and exits with status 1. In a run of \<^verbatim>\<open>main\<close> whose prerequisite checks
  return, this is the end of the run, and everything done before it is the first line
  and events of the prerequisite checks: no provisioning command, no directory and no
  file.
\<close>

theorem missing_settings_is_fatal:
  "(\<not> os_exists os (world s) settings_path
      \<longrightarrow> read_bundle_ids os s = (SysExit 1, s\<lparr>trace := trace s @ [settings_missing]\<rparr>))
   \<and> (2 \<le> length argv
        \<and> check_prerequisites os (s\<lparr>trace := trace s @ [greeting argv]\<rparr>) = (Returned (), s1)
        \<and> \<not> os_exists os (world s1) settings_path
      \<longrightarrow> main os argv s = (SysExit 1, s1\<lparr>trace := trace s1 @ [settings_missing]\<rparr>)
          \<and> exit_status (fst (main os argv s)) = 1
          \<and> (\<exists>evs. trace s1 = trace s @ greeting argv # evs \<and> list_all prerequisite_event evs))"
proof (intro conjI impI)
  assume "\<not> os_exists os (world s) settings_path"
  then show "read_bundle_ids os s = (SysExit 1, s\<lparr>trace := trace s @ [settings_missing]\<rparr>)"
    by (rule read_bundle_ids_missing)
next
  assume a: "2 \<le> length argv
        \<and> check_prerequisites os (s\<lparr>trace := trace s @ [greeting argv]\<rparr>) = (Returned (), s1)
        \<and> \<not> os_exists os (world s1) settings_path"
  then show m: "main os argv s = (SysExit 1, s1\<lparr>trace := trace s1 @ [settings_missing]\<rparr>)"
    using main_missing_settings by blast
  show "exit_status (fst (main os argv s)) = 1"
    by (simp add: m exit_status_def)
  obtain evs where "trace (snd (check_prerequisites os (s\<lparr>trace := trace s @ [greeting argv]\<rparr>)))
       = trace (s\<lparr>trace := trace s @ [greeting argv]\<rparr>) @ evs" "list_all prerequisite_event evs"
    using check_prerequisites_events[of os] unfolding appends_def by blast
  then show "\<exists>evs. trace s1 = trace s @ greeting argv # evs \<and> list_all prerequisite_event evs"
    using a by auto
qed

theorem missing_settings_is_fatal_witness:
  "2 \<le> length [''setup.py'', ''My Game'']
   \<and> check_prerequisites (static_os [''firebase''] (\<lambda>_. (0, [])) None None)
         ((start None)\<lparr>trace := trace (start None) @ [greeting [''setup.py'', ''My Game'']]\<rparr>)
       = (Returned (),
          \<lparr>env_PATH = None, world = (),
            trace = [greeting [''setup.py'', ''My Game''], Exec ''firebase projects:list'']\<rparr>)
   \<and> \<not> os_exists (static_os [''firebase''] (\<lambda>_. (0, [])) None None) () settings_path
   \<and> main (static_os [''firebase''] (\<lambda>_. (0, [])) None None) [''setup.py'', ''My Game'']
         (start None)
       = (SysExit 1,
          \<lparr>env_PATH = None, world = (),
            trace = [greeting [''setup.py'', ''My Game''], Exec ''firebase projects:list'',
                     settings_missing]\<rparr>)
   \<and> read_bundle_ids (static_os [''firebase''] (\<lambda>_. (0, [])) None None) (start None)
       = (SysExit 1, (start None)\<lparr>trace := trace (start None) @ [settings_missing]\<rparr>)"
proof -
  let ?os = "static_os [''firebase''] (\<lambda>_. (0, [])) None None"
  let ?argv = "[''setup.py'', ''My Game'']"
  let ?s1 = "\<lparr>env_PATH = None, world = (),
            trace = [greeting ?argv, Exec ''firebase projects:list'']\<rparr>"
  have h1: "2 \<le> length ?argv" by simp
  have h2: "check_prerequisites ?os ((start None)\<lparr>trace := trace (start None) @ [greeting ?argv]\<rparr>)
       = (Returned (), ?s1)"
    by (simp add: check_prerequisites_def check_node_version_def and_then_def return_def
        run_def static_os_def command_exists_def truthy_def start_def)
  have h3: "\<not> os_exists ?os (world ?s1) settings_path"
    by (simp add: static_os_def)
  have h4: "\<not> os_exists ?os (world (start None)) settings_path"
    by (simp add: static_os_def)
  note t = missing_settings_is_fatal[of ?os _ ?argv]
  from t[of "start None" ?s1] h1 h2 h3
  have a: "main ?os ?argv (start None) = (SysExit 1, ?s1\<lparr>trace := trace ?s1 @ [settings_missing]\<rparr>)"
    by blast
  from t[of "start None"] h4
  have b: "read_bundle_ids ?os (start None)
       = (SysExit 1, (start None)\<lparr>trace := trace (start None) @ [settings_missing]\<rparr>)"
    by blast
  show ?thesis using h1 h2 h3 a b by simp
qed

end
